theory Spec2Isabelle
  imports Complex_Main "HOL-Library.AList" "HOL-Library.Log_Nat"
begin

section \<open>Cloud Economizer: aggregation and recommendation core\<close>

text \<open>
  A shallow embedding of \<^verbatim>\<open>cloud_economizer/analysis/analyzer.py\<close> (the merge of
  provider results into the run result) and of \<^verbatim>\<open>cloud_economizer/ai/insight_engine.py\<close>
  (the recommendation engine).

  Conventions of the embedding:
  \<^item> a Python \<^verbatim>\<open>dict\<close> whose iteration order matters is an association list; a new key
    is appended at the end and an existing key is overwritten in place, which is what
    \<^const>\<open>AList.update\<close> does;
  \<^item> Python numbers: counts are \<^typ>\<open>int\<close>; a money amount is a \<^typ>\<open>real\<close>, the value
    of the float. The operator \<open>+\<close> on amounts is the exact sum; where several additions
    follow one another, so that the rounding of Python's float addition shows, the
    addition is \<open>float_add\<close>, which rounds as Python does;
  \<^item> a key that a dict may lack is an \<^typ>\<open>'a option\<close> field, read with a default as
    \<^verbatim>\<open>d.get(key, default)\<close> does;
  \<^item> an exception is the \<open>Inl\<close> side of a sum.
\<close>

subsection \<open>Data model\<close>

datatype error = KeyError | ZeroDivisionError

text \<open>One finding, as the provider probes build it.\<close>

record finding =
  resource_id :: string
  resource_type :: string
  region :: "string option"
  issue :: string
  finding_recommendation :: string
  estimated_monthly_savings :: real
  confidence :: real

text \<open>
  The per-category dict of a provider result, and of the engine's input: each of the
  three keys may be missing.
\<close>

record category_data =
  data_count :: "int option"
  data_savings :: "real option"
  data_items :: "finding list option"

text \<open>
  A bucket of \<^verbatim>\<open>self.results['categories']\<close>. The analyzer only ever stores buckets
  made by the literal \<^verbatim>\<open>{'count': 0, 'savings': 0, 'items': []}\<close>, so all three keys
  are present.
\<close>

record bucket =
  count :: int
  savings :: real
  items :: "finding list"

record recommendation =
  category :: string
  priority :: string
  finding_count :: int
  rec_total_savings :: real
  average_savings_per_item :: real
  recommendation :: string
  risk_level :: string
  effort :: string

text \<open>\<^verbatim>\<open>CloudAnalyzer.results\<close>.\<close>

record results =
  timestamp :: string
  categories :: "(string \<times> bucket) list"
  recommendations :: "recommendation list"
  total_savings :: real

text \<open>\<^verbatim>\<open>d.get(key, default)\<close> on a key that may be missing.\<close>

definition dict_get :: "'a option \<Rightarrow> 'a \<Rightarrow> 'a" where
  "dict_get v dflt = (case v of None \<Rightarrow> dflt | Some x \<Rightarrow> x)"

subsection \<open>The analyzer: merging provider results\<close>

text \<open>\<^verbatim>\<open>CloudAnalyzer.__init__\<close>; the clock reading is a parameter.\<close>

definition init_results :: "string \<Rightarrow> results" where
  "init_results now =
     \<lparr>timestamp = now, categories = [], recommendations = [], total_savings = 0\<rparr>"

definition fresh_bucket :: bucket where
  "fresh_bucket = \<lparr>count = 0, savings = 0, items = []\<rparr>"

text \<open>
  \<^verbatim>\<open>cats[category][field] op= ...\<close>: the subscription \<^verbatim>\<open>cats[category]\<close> raises
  \<^verbatim>\<open>KeyError\<close> on a missing key.
\<close>

definition modify_bucket ::
  "string \<Rightarrow> (bucket \<Rightarrow> bucket) \<Rightarrow> (string \<times> bucket) list \<Rightarrow> error + (string \<times> bucket) list" where
  "modify_bucket k f cats =
     (case map_of cats k of
        None \<Rightarrow> Inl KeyError
      | Some b \<Rightarrow> Inr (AList.update k (f b) cats))"

text \<open>One iteration of the merge loop of \<^verbatim>\<open>_analyze_aws\<close>.\<close>

definition merge_category :: "results \<Rightarrow> string \<times> category_data \<Rightarrow> error + results" where
  "merge_category r entry =
     (let cat = fst entry; data = snd entry;
          cats0 = (if map_of (categories r) cat = None
                   then AList.update cat fresh_bucket (categories r)
                   else categories r)
      in (case modify_bucket cat
                 (\<lambda>b. b\<lparr>count := count b + dict_get (data_count data) 0\<rparr>) cats0 of
            Inl e \<Rightarrow> Inl e
          | Inr cats1 \<Rightarrow>
         (case modify_bucket cat
                 (\<lambda>b. b\<lparr>savings := savings b + dict_get (data_savings data) 0\<rparr>) cats1 of
            Inl e \<Rightarrow> Inl e
          | Inr cats2 \<Rightarrow>
         (case modify_bucket cat
                 (\<lambda>b. b\<lparr>items := items b @ dict_get (data_items data) []\<rparr>) cats2 of
            Inl e \<Rightarrow> Inl e
          | Inr cats3 \<Rightarrow>
              Inr (r\<lparr>categories := cats3,
                     total_savings := total_savings r + dict_get (data_savings data) 0\<rparr>)))))"

text \<open>The loop \<^verbatim>\<open>for category, data in aws_results.items()\<close>.\<close>

fun merge_results :: "results \<Rightarrow> (string \<times> category_data) list \<Rightarrow> error + results" where
  "merge_results r [] = Inr r"
| "merge_results r (entry # rest) =
     (case merge_category r entry of
        Inl e \<Rightarrow> Inl e
      | Inr r' \<Rightarrow> merge_results r' rest)"

text \<open>
  \<^verbatim>\<open>_analyze_aws\<close>, \<^verbatim>\<open>_analyze_azure\<close> and \<^verbatim>\<open>_analyze_gcp\<close>: each asks its probe
  for a result (a parameter here, the probes talk to the cloud) and runs the same merge
  loop on it.
\<close>

definition analyze_aws :: "results \<Rightarrow> (string \<times> category_data) list \<Rightarrow> error + results" where
  "analyze_aws r aws_results = merge_results r aws_results"

definition analyze_azure :: "results \<Rightarrow> (string \<times> category_data) list \<Rightarrow> error + results" where
  "analyze_azure r azure_results = merge_results r azure_results"

definition analyze_gcp :: "results \<Rightarrow> (string \<times> category_data) list \<Rightarrow> error + results" where
  "analyze_gcp r gcp_results = merge_results r gcp_results"

text \<open>A run of provider scans, one merge after the other, as \<^verbatim>\<open>analyze\<close> drives them.\<close>

datatype scan =
    Aws "(string \<times> category_data) list"
  | Azure "(string \<times> category_data) list"
  | Gcp "(string \<times> category_data) list"


fun run_scan :: "results \<Rightarrow> scan \<Rightarrow> error + results" where
  "run_scan r (Aws p) = analyze_aws r p"
| "run_scan r (Azure p) = analyze_azure r p"
| "run_scan r (Gcp p) = analyze_gcp r p"

fun run_scans :: "results \<Rightarrow> scan list \<Rightarrow> error + results" where
  "run_scans r [] = Inr r"
| "run_scans r (s # ss) =
     (case run_scan r s of
        Inl e \<Rightarrow> Inl e
      | Inr r' \<Rightarrow> run_scans r' ss)"

subsection \<open>The insight engine\<close>

record engine_config =
  cfg_model :: "string option"
  cfg_confidence_threshold :: "real option"
  cfg_enabled :: "bool option"

record engine =
  model :: string
  confidence_threshold :: real
  enabled :: bool
  api_key :: "string option"

text \<open>
  \<^verbatim>\<open>InsightEngine.__init__\<close>. The environment variable \<^verbatim>\<open>OPENAI_API_KEY\<close> is a
  parameter; \<^verbatim>\<open>not self.api_key\<close> holds for a missing and for an empty value. The
  second component is what the constructor prints.
\<close>

definition engine_init :: "engine_config \<Rightarrow> string option \<Rightarrow> engine \<times> string list" where
  "engine_init config env_key =
     (let e = \<lparr>model = dict_get (cfg_model config) ''gpt-4'',
               confidence_threshold = dict_get (cfg_confidence_threshold config) (7 / 10),
               enabled = dict_get (cfg_enabled config) False,
               api_key = env_key\<rparr>
      in if enabled e \<and> (api_key e = None \<or> api_key e = Some [])
         then (e\<lparr>enabled := False\<rparr>,
               [''Warning: AI features enabled but OPENAI_API_KEY not set''])
         else (e, []))"

definition calculate_priority :: "real \<Rightarrow> int \<Rightarrow> string" where
  "calculate_priority s c =
     (if s > 10000 \<or> c > 50 then ''High''
      else if s > 1000 \<or> c > 10 then ''Medium''
      else ''Low'')"

definition remedy_table :: "(string \<times> string) list" where
  "remedy_table =
     [(''EC2 Instances'', ''Review and rightsize or terminate idle instances''),
      (''EBS Volumes'', ''Delete unattached volumes or create snapshots''),
      (''Elastic IPs'', ''Release unattached Elastic IPs''),
      (''RDS Databases'', ''Downsize or use reserved instances for better pricing''),
      (''S3 Storage'', ''Implement lifecycle policies to optimize storage costs''),
      (''Virtual Machines'', ''Deallocate stopped VMs or resize active ones''),
      (''Managed Disks'', ''Clean up unattached disks''),
      (''Storage Accounts'', ''Optimize storage tier based on access patterns''),
      (''Compute Instances'', ''Review instance utilization and rightsizing''),
      (''Persistent Disks'', ''Remove unattached disks''),
      (''Cloud Storage'', ''Configure lifecycle management for automatic optimization'')]"

definition get_category_recommendation :: "string \<Rightarrow> string" where
  "get_category_recommendation cat =
     dict_get (map_of remedy_table cat) ''Review and optimize resources''"

definition high_risk :: "string list" where
  "high_risk = [''EC2 Instances'', ''RDS Databases'', ''Virtual Machines'', ''Compute Instances'']"

definition medium_risk :: "string list" where
  "medium_risk = [''EBS Volumes'', ''Managed Disks'', ''Persistent Disks'']"

definition assess_risk :: "string \<Rightarrow> string" where
  "assess_risk cat =
     (if cat \<in> set high_risk then ''Medium''
      else if cat \<in> set medium_risk then ''Low''
      else ''Very Low'')"

definition low_effort :: "string list" where
  "low_effort = [''Elastic IPs'', ''EBS Volumes'', ''Managed Disks'', ''Persistent Disks'']"

definition assess_effort :: "string \<Rightarrow> string" where
  "assess_effort cat = (if cat \<in> set low_effort then ''Low'' else ''Medium'')"

text \<open>Python's \<^verbatim>\<open>/\<close> raises on a zero divisor.\<close>

definition py_truediv :: "real \<Rightarrow> real \<Rightarrow> error + real" where
  "py_truediv a b = (if b = 0 then Inl ZeroDivisionError else Inr (a / b))"

text \<open>The dict appended for one category with a positive count.\<close>

definition make_recommendation :: "string \<Rightarrow> category_data \<Rightarrow> error + recommendation" where
  "make_recommendation cat data =
     (case py_truediv (dict_get (data_savings data) 0)
                      (real_of_int (dict_get (data_count data) 1)) of
        Inl e \<Rightarrow> Inl e
      | Inr avg_savings \<Rightarrow>
          Inr \<lparr>category = cat,
               priority = calculate_priority (dict_get (data_savings data) 0)
                                             (dict_get (data_count data) 0),
               finding_count = dict_get (data_count data) 0,
               rec_total_savings = dict_get (data_savings data) 0,
               average_savings_per_item = avg_savings,
               recommendation = get_category_recommendation cat,
               risk_level = assess_risk cat,
               effort = assess_effort cat\<rparr>)"

text \<open>
  The loop \<^verbatim>\<open>for category, data in categories.items()\<close>; the second argument is the
  list \<^verbatim>\<open>recommendations\<close> built so far.
\<close>

fun collect_recommendations ::
  "(string \<times> category_data) list \<Rightarrow> recommendation list \<Rightarrow> error + recommendation list" where
  "collect_recommendations [] recs = Inr recs"
| "collect_recommendations ((cat, data) # rest) recs =
     (if dict_get (data_count data) 0 > 0
      then (case make_recommendation cat data of
              Inl e \<Rightarrow> Inl e
            | Inr r \<Rightarrow> collect_recommendations rest (recs @ [r]))
      else collect_recommendations rest recs)"

text \<open>
  \<^verbatim>\<open>list.sort(key=f, reverse=True)\<close>: a stable sort in descending key order; CPython
  reverses the list, sorts it stably in ascending order and reverses it again.
\<close>

definition sort_reverse :: "('a \<Rightarrow> real) \<Rightarrow> 'a list \<Rightarrow> 'a list" where
  "sort_reverse f xs = rev (sort_key f (rev xs))"

definition generate_basic_recommendations ::
  "engine \<Rightarrow> (string \<times> category_data) list \<Rightarrow> error + recommendation list" where
  "generate_basic_recommendations self cats =
     (case collect_recommendations cats [] of
        Inl e \<Rightarrow> Inl e
      | Inr recs \<Rightarrow> Inr (sort_reverse rec_total_savings recs))"

definition generate_ai_recommendations ::
  "engine \<Rightarrow> (string \<times> category_data) list \<Rightarrow> error + recommendation list" where
  "generate_ai_recommendations self cats = generate_basic_recommendations self cats"

text \<open>
  \<^verbatim>\<open>enhance_recommendations\<close>: any exception of the enhanced path is caught and the
  basic path runs instead (the warning line printed there is not modelled).
\<close>

definition enhance_recommendations ::
  "engine \<Rightarrow> (string \<times> category_data) list \<Rightarrow> error + recommendation list" where
  "enhance_recommendations self cats =
     (if \<not> enabled self then generate_basic_recommendations self cats
      else (case generate_ai_recommendations self cats of
              Inl e \<Rightarrow> generate_basic_recommendations self cats
            | Inr recs \<Rightarrow> Inr recs))"

subsection \<open>Double-precision addition, and the merge under it\<close>

text \<open>
  Python adds two floats as IEEE 754 binary64 numbers: the exact sum is rounded to the
  nearest number with a 53-bit significand, a tie going to the even significand.
  \<open>float_round\<close> is this rounding on the normal range (overflow and subnormal numbers,
  which no amount of money comes near, are left out); \<open>binary_exponent y\<close> is the
  integer \<open>e\<close> with \<open>2\<^sup>e \<le> y < 2\<^sup>e\<^sup>+\<^sup>1\<close> for a positive \<open>y\<close>.
\<close>

definition binary_exponent :: "real \<Rightarrow> int" where
  "binary_exponent y =
     (if 1 \<le> y then bitlen \<lfloor>y\<rfloor> - 1 else - bitlen (\<lceil>1 / y\<rceil> - 1))"

definition round_half_even :: "real \<Rightarrow> int" where
  "round_half_even x =
     (let f = \<lfloor>x\<rfloor>; d = x - of_int f
      in if d < 1 / 2 then f
         else if 1 / 2 < d then f + 1
         else if even f then f else f + 1)"

definition float_round :: "real \<Rightarrow> real" where
  "float_round x =
     (if x = 0 then 0
      else let e = binary_exponent \<bar>x\<bar> - 52
           in of_int (round_half_even (x * power_int 2 (- e))) * power_int 2 e)"

definition float_add :: "real \<Rightarrow> real \<Rightarrow> real" where
  "float_add x y = float_round (x + y)"

text \<open>
  The merge loop once more, with the two additions of amounts
  (\<^verbatim>\<open>['savings'] += ...\<close> and \<^verbatim>\<open>self.results['total_savings'] += ...\<close>) rounded as
  Python rounds them. \<open>merge_category\<close> above adds amounts exactly; the two agree as long
  as no addition rounds.
\<close>

definition merge_category_fp :: "results \<Rightarrow> string \<times> category_data \<Rightarrow> error + results" where
  "merge_category_fp r entry =
     (let cat = fst entry; data = snd entry;
          cats0 = (if map_of (categories r) cat = None
                   then AList.update cat fresh_bucket (categories r)
                   else categories r)
      in (case modify_bucket cat
                 (\<lambda>b. b\<lparr>count := count b + dict_get (data_count data) 0\<rparr>) cats0 of
            Inl e \<Rightarrow> Inl e
          | Inr cats1 \<Rightarrow>
         (case modify_bucket cat
                 (\<lambda>b. b\<lparr>savings := float_add (savings b) (dict_get (data_savings data) 0)\<rparr>)
                 cats1 of
            Inl e \<Rightarrow> Inl e
          | Inr cats2 \<Rightarrow>
         (case modify_bucket cat
                 (\<lambda>b. b\<lparr>items := items b @ dict_get (data_items data) []\<rparr>) cats2 of
            Inl e \<Rightarrow> Inl e
          | Inr cats3 \<Rightarrow>
              Inr (r\<lparr>categories := cats3,
                     total_savings :=
                       float_add (total_savings r) (dict_get (data_savings data) 0)\<rparr>)))))"

fun merge_results_fp :: "results \<Rightarrow> (string \<times> category_data) list \<Rightarrow> error + results" where
  "merge_results_fp r [] = Inr r"
| "merge_results_fp r (entry # rest) =
     (case merge_category_fp r entry of
        Inl e \<Rightarrow> Inl e
      | Inr r' \<Rightarrow> merge_results_fp r' rest)"


subsection \<open>Notions used in the statements\<close>

text \<open>A bucket after one payload has been added to it.\<close>

abbreviation merged_bucket :: "bucket \<Rightarrow> category_data \<Rightarrow> bucket" where
  "merged_bucket b data \<equiv>
     \<lparr>count = count b + dict_get (data_count data) 0,
      savings = savings b + dict_get (data_savings data) 0,
      items = items b @ dict_get (data_items data) []\<rparr>"

text \<open>The items a provider result contributes to a category (none when it lacks the key).\<close>

definition payload_items :: "(string \<times> category_data) list \<Rightarrow> string \<Rightarrow> finding list" where
  "payload_items prov k =
     (case map_of prov k of None \<Rightarrow> [] | Some data \<Rightarrow> dict_get (data_items data) [])"







text \<open>The record the basic path builds for a category with a positive count.\<close>

abbreviation basic_record :: "string \<Rightarrow> category_data \<Rightarrow> recommendation" where
  "basic_record cat data \<equiv>
     \<lparr>category = cat,
      priority = calculate_priority (dict_get (data_savings data) 0)
                                    (dict_get (data_count data) 0),
      finding_count = dict_get (data_count data) 0,
      rec_total_savings = dict_get (data_savings data) 0,
      average_savings_per_item =
        dict_get (data_savings data) 0 / real_of_int (dict_get (data_count data) 0),
      recommendation = get_category_recommendation cat,
      risk_level = assess_risk cat,
      effort = assess_effort cat\<rparr>"

abbreviation counted :: "string \<times> category_data \<Rightarrow> bool" where
  "counted entry \<equiv> dict_get (data_count (snd entry)) 0 > 0"

subsection \<open>Example inputs\<close>

text \<open>A finding shaped as the one of \<^verbatim>\<open>tests/conftest.py\<close>.\<close>

definition sample_finding :: "string \<Rightarrow> real \<Rightarrow> finding" where
  "sample_finding rid s =
     \<lparr>resource_id = rid, resource_type = ''EC2 Instance'', region = None,
      issue = ''Low CPU utilization'', finding_recommendation = ''Downsize instance'',
      estimated_monthly_savings = s, confidence = 9 / 10\<rparr>"

definition sample_results :: results where
  "sample_results =
     \<lparr>timestamp = ''2025-01-01T00:00:00'',
      categories = [(''EC2 Instances'',
                     \<lparr>count = 1, savings = 200, items = [sample_finding ''i-12345'' 200]\<rparr>)],
      recommendations = [],
      total_savings = 200\<rparr>"

definition sample_aws_results :: "(string \<times> category_data) list" where
  "sample_aws_results =
     [(''EBS Volumes'',
       \<lparr>data_count = Some 1, data_savings = Some 50,
        data_items = Some [sample_finding ''vol-1'' 50]\<rparr>),
      (''EC2 Instances'',
       \<lparr>data_count = None, data_savings = Some 30, data_items = None\<rparr>)]"

definition sample_azure_results :: "(string \<times> category_data) list" where
  "sample_azure_results =
     [(''EC2 Instances'',
       \<lparr>data_count = Some 2, data_savings = Some 400,
        data_items = Some [sample_finding ''i-1'' 100, sample_finding ''i-2'' 300]\<rparr>),
      (''Virtual Machines'',
       \<lparr>data_count = Some 1, data_savings = Some 40,
        data_items = Some [sample_finding ''vm-1'' 40]\<rparr>)]"

definition sample_gcp_results :: "(string \<times> category_data) list" where
  "sample_gcp_results =
     [(''EC2 Instances'',
       \<lparr>data_count = Some 1, data_savings = Some 200,
        data_items = Some [sample_finding ''i-12345'' 200]\<rparr>)]"

text \<open>The configurations and the categories of \<^verbatim>\<open>tests/unit/test_insight_engine.py\<close>.\<close>

definition config_ai_requested :: engine_config where
  "config_ai_requested =
     \<lparr>cfg_model = Some ''gpt-4'', cfg_confidence_threshold = Some (7 / 10),
      cfg_enabled = Some True\<rparr>"

definition config_ai_disabled :: engine_config where
  "config_ai_disabled =
     \<lparr>cfg_model = Some ''gpt-4'', cfg_confidence_threshold = Some (7 / 10),
      cfg_enabled = Some False\<rparr>"

definition default_engine :: engine where
  "default_engine = fst (engine_init config_ai_disabled None)"

definition test_categories :: "(string \<times> category_data) list" where
  "test_categories =
     [(''EC2 Instances'', \<lparr>data_count = Some 5, data_savings = Some 1000, data_items = Some []\<rparr>),
      (''EBS Volumes'', \<lparr>data_count = Some 10, data_savings = Some 500, data_items = Some []\<rparr>)]"

text \<open>Two categories with equal savings before one with larger savings.\<close>

definition tie_categories :: "(string \<times> category_data) list" where
  "tie_categories =
     [(''A'', \<lparr>data_count = Some 1, data_savings = Some 500, data_items = None\<rparr>),
      (''B'', \<lparr>data_count = Some 1, data_savings = Some 500, data_items = None\<rparr>),
      (''C'', \<lparr>data_count = Some 1, data_savings = Some 900, data_items = None\<rparr>)]"

text \<open>A positive count, a zero count and a missing count.\<close>

definition mixed_count_categories :: "(string \<times> category_data) list" where
  "mixed_count_categories =
     [(''S3 Storage'', \<lparr>data_count = Some 0, data_savings = Some 10, data_items = None\<rparr>),
      (''EC2 Instances'', \<lparr>data_count = Some 5, data_savings = Some 1000, data_items = None\<rparr>),
      (''Elastic IPs'', \<lparr>data_count = None, data_savings = Some 7, data_items = None\<rparr>)]"

text \<open>The end-to-end example of the specification (43.2 is 216/5).\<close>

definition spec_example_categories :: "(string \<times> category_data) list" where
  "spec_example_categories =
     [(''EC2 Instances'', \<lparr>data_count = Some 23, data_savings = Some 18450, data_items = None\<rparr>),
      (''EBS Volumes'', \<lparr>data_count = Some 156, data_savings = Some 12340, data_items = None\<rparr>),
      (''Elastic IPs'', \<lparr>data_count = Some 12, data_savings = Some (216 / 5), data_items = None\<rparr>)]"

text \<open>
  The doubles that the Python literals \<^verbatim>\<open>0.1\<close>, \<^verbatim>\<open>0.2\<close> and \<^verbatim>\<open>0.3\<close> denote, and two
  scans of one category: a volume saving 0.1, then two volumes saving 0.2 and 0.3, whose
  probe sums them to 0.5.
\<close>

definition double_0_1 :: real where
  "double_0_1 = 3602879701896397 / 36028797018963968"

definition double_0_2 :: real where
  "double_0_2 = 3602879701896397 / 18014398509481984"

definition double_0_3 :: real where
  "double_0_3 = 5404319552844595 / 18014398509481984"


subsection \<open>Priority thresholds\<close>

text \<open>
  C1. The priority is High exactly when the savings exceed 10000 or the count exceeds 50;
  it is Medium exactly when that fails and the savings exceed 1000 or the count exceeds 10;
  it is Low in the remaining case. The four boundary evaluations of the specification
  hold: a value exactly at a threshold does not reach the level.
\<close>

theorem calculate_priority_spec:
  "calculate_priority s c =
     (if s > 10000 \<or> c > 50 then ''High''
      else if s > 1000 \<or> c > 10 then ''Medium'' else ''Low'')
   \<and> ((calculate_priority s c = ''High'') = (s > 10000 \<or> c > 50))
   \<and> ((calculate_priority s c = ''Medium'') = (\<not> (s > 10000 \<or> c > 50) \<and> (s > 1000 \<or> c > 10)))
   \<and> ((calculate_priority s c = ''Low'') = (s \<le> 10000 \<and> c \<le> 50 \<and> s \<le> 1000 \<and> c \<le> 10))
   \<and> calculate_priority 10001 0 = ''High''
   \<and> calculate_priority 0 51 = ''High''
   \<and> calculate_priority 1001 0 = ''Medium''
   \<and> calculate_priority 1000 10 = ''Low''"
  by (auto simp: calculate_priority_def)

subsection \<open>Merging one provider result\<close>

lemma bucket_update_all:
  "(b::bucket)\<lparr>count := c, savings := s, items := i\<rparr> = \<lparr>count = c, savings = s, items = i\<rparr>"
  by (cases b) simp

text \<open>
  One iteration of the merge loop in closed form: the three subscriptions find the
  bucket, so no \<^verbatim>\<open>KeyError\<close> is raised.
\<close>

lemma merge_category_eq:
  "merge_category r (cat, data) =
     Inr (r\<lparr>categories :=
              AList.update cat
                (merged_bucket (dict_get (map_of (categories r) cat) fresh_bucket) data)
                (categories r),
            total_savings := total_savings r + dict_get (data_savings data) 0\<rparr>)"
  by (cases "map_of (categories r) cat")
     (simp_all add: merge_category_def modify_bucket_def update_conv' Let_def
        bucket_update_all dict_get_def)

lemma merge_results_total: "\<exists>r'. merge_results r prov = Inr r'"
  by (induction prov arbitrary: r) (auto simp: merge_category_eq)

lemma merge_results_map_of:
  assumes "distinct (map fst prov)" and "merge_results r prov = Inr r'"
  shows "map_of (categories r') k =
           (case map_of prov k of
              None \<Rightarrow> map_of (categories r) k
            | Some data \<Rightarrow>
                Some (merged_bucket (dict_get (map_of (categories r) k) fresh_bucket) data))"
  using assms
proof (induction prov arbitrary: r)
  case Nil
  then show ?case by simp
next
  case (Cons entry rest)
  obtain c d where entry: "entry = (c, d)" by (cases entry)
  let ?r1 = "r\<lparr>categories :=
              AList.update c
                (merged_bucket (dict_get (map_of (categories r) c) fresh_bucket) d)
                (categories r),
            total_savings := total_savings r + dict_get (data_savings d) 0\<rparr>"
  from Cons.prems entry have rest: "merge_results ?r1 rest = Inr r'"
    by (simp add: merge_category_eq)
  from Cons.prems entry have dist: "distinct (map fst rest)" and notin: "c \<notin> fst ` set rest"
    by auto
  from notin have none: "map_of rest c = None"
    by (simp add: map_of_eq_None_iff)
  show ?case
    using Cons.IH [OF dist rest] none
    by (cases "k = c") (simp_all add: entry update_conv' split: option.splits)
qed

text \<open>
  C2. Merging a provider result (a dict, so its keys are distinct; it may be empty) into
  any category map never fails, in \<^verbatim>\<open>_analyze_aws\<close> as in \<^verbatim>\<open>_analyze_azure\<close>. A
  category that the provider result lacks keeps its bucket. A category it has gets the
  bucket it had, or the fresh bucket with count 0, savings 0 and no items when it had
  none, with the payload's count and savings added and the payload's items appended after
  the existing ones; a key missing in the payload counts as 0, 0 or no items.
\<close>

theorem merge_results_spec:
  assumes "distinct (map fst prov)"
  shows "\<exists>r'. merge_results r prov = Inr r'
           \<and> analyze_aws r prov = Inr r' \<and> analyze_azure r prov = Inr r'
           \<and> fresh_bucket = \<lparr>count = 0, savings = 0, items = []\<rparr>
           \<and> (\<forall>k. map_of (categories r') k =
                 (case map_of prov k of
                    None \<Rightarrow> map_of (categories r) k
                  | Some data \<Rightarrow>
                      Some \<lparr>count = count (dict_get (map_of (categories r) k) fresh_bucket)
                                     + dict_get (data_count data) 0,
                            savings = savings (dict_get (map_of (categories r) k) fresh_bucket)
                                     + dict_get (data_savings data) 0,
                            items = items (dict_get (map_of (categories r) k) fresh_bucket)
                                     @ dict_get (data_items data) []\<rparr>))"
proof -
  obtain r' where r': "merge_results r prov = Inr r'"
    using merge_results_total by blast
  show ?thesis
    using r' merge_results_map_of [OF assms r']
    by (auto simp: analyze_aws_def analyze_azure_def fresh_bucket_def)
qed

theorem merge_results_spec_witness:
  "distinct (map fst sample_aws_results)
   \<and> merge_results sample_results sample_aws_results =
       Inr \<lparr>timestamp = ''2025-01-01T00:00:00'',
            categories =
              [(''EC2 Instances'',
                \<lparr>count = 1, savings = 230, items = [sample_finding ''i-12345'' 200]\<rparr>),
               (''EBS Volumes'',
                \<lparr>count = 1, savings = 50, items = [sample_finding ''vol-1'' 50]\<rparr>)],
            recommendations = [],
            total_savings = 280\<rparr>
   \<and> merge_results sample_results [] = Inr sample_results"
  using merge_results_spec [of sample_aws_results sample_results]
  by (simp add: sample_aws_results_def sample_results_def merge_category_eq dict_get_def
      fresh_bucket_def)

subsection \<open>Merging in either order\<close>

text \<open>
  C6. Two provider results merged into the empty category map give every category the
  same count and the same savings in either order; the items of a category are the
  items of the result merged first followed by the items of the result merged second.
\<close>

theorem merge_additivity:
  assumes "distinct (map fst A)" and "distinct (map fst B)"
  shows "\<exists>rA rAB rB rBA.
           merge_results (init_results now) A = Inr rA \<and> merge_results rA B = Inr rAB
         \<and> merge_results (init_results now) B = Inr rB \<and> merge_results rB A = Inr rBA
         \<and> (\<forall>k. map_option count (map_of (categories rAB) k) =
                   map_option count (map_of (categories rBA) k)
               \<and> map_option savings (map_of (categories rAB) k) =
                   map_option savings (map_of (categories rBA) k)
               \<and> map_option items (map_of (categories rAB) k) =
                   (if k \<in> fst ` set A \<union> fst ` set B
                    then Some (payload_items A k @ payload_items B k) else None)
               \<and> map_option items (map_of (categories rBA) k) =
                   (if k \<in> fst ` set A \<union> fst ` set B
                    then Some (payload_items B k @ payload_items A k) else None))"
proof -
  obtain rA where rA: "merge_results (init_results now) A = Inr rA"
    using merge_results_total by blast
  obtain rAB where rAB: "merge_results rA B = Inr rAB"
    using merge_results_total by blast
  obtain rB where rB: "merge_results (init_results now) B = Inr rB"
    using merge_results_total by blast
  obtain rBA where rBA: "merge_results rB A = Inr rBA"
    using merge_results_total by blast
  have dom: "k \<in> fst ` set P \<longleftrightarrow> map_of P k \<noteq> None"
    for k and P :: "(string \<times> category_data) list"
    by (simp add: map_of_eq_None_iff)
  have "map_option count (map_of (categories rAB) k) =
          map_option count (map_of (categories rBA) k)
      \<and> map_option savings (map_of (categories rAB) k) =
          map_option savings (map_of (categories rBA) k)
      \<and> map_option items (map_of (categories rAB) k) =
          (if k \<in> fst ` set A \<union> fst ` set B
           then Some (payload_items A k @ payload_items B k) else None)
      \<and> map_option items (map_of (categories rBA) k) =
          (if k \<in> fst ` set A \<union> fst ` set B
           then Some (payload_items B k @ payload_items A k) else None)" for k
    using merge_results_map_of [OF assms(1) rA, of k] merge_results_map_of [OF assms(2) rAB, of k]
      merge_results_map_of [OF assms(2) rB, of k] merge_results_map_of [OF assms(1) rBA, of k]
    by (cases "map_of A k"; cases "map_of B k")
       (simp_all add: dom payload_items_def init_results_def dict_get_def fresh_bucket_def)
  with rA rAB rB rBA show ?thesis by blast
qed

theorem merge_additivity_witness:
  "distinct (map fst sample_gcp_results) \<and> distinct (map fst sample_azure_results)
   \<and> map_sum id (\<lambda>r. map_sum id categories (merge_results r sample_azure_results))
       (merge_results (init_results []) sample_gcp_results) =
     Inr (Inr [(''EC2 Instances'',
                \<lparr>count = 3, savings = 600,
                 items = [sample_finding ''i-12345'' 200, sample_finding ''i-1'' 100,
                          sample_finding ''i-2'' 300]\<rparr>),
               (''Virtual Machines'',
                \<lparr>count = 1, savings = 40, items = [sample_finding ''vm-1'' 40]\<rparr>)])
   \<and> map_sum id (\<lambda>r. map_sum id categories (merge_results r sample_gcp_results))
       (merge_results (init_results []) sample_azure_results) =
     Inr (Inr [(''EC2 Instances'',
                \<lparr>count = 3, savings = 600,
                 items = [sample_finding ''i-1'' 100, sample_finding ''i-2'' 300,
                          sample_finding ''i-12345'' 200]\<rparr>),
               (''Virtual Machines'',
                \<lparr>count = 1, savings = 40, items = [sample_finding ''vm-1'' 40]\<rparr>)])"
  using merge_additivity [of sample_gcp_results sample_azure_results "[]"]
  by (simp add: sample_gcp_results_def sample_azure_results_def init_results_def
      merge_category_eq dict_get_def fresh_bucket_def)

subsection \<open>Double-precision addition\<close>

text \<open>The exponent brackets its argument between two consecutive powers of two.\<close>

lemma binary_exponent_bounds:
  assumes "0 < y"
  shows "power_int 2 (binary_exponent y) \<le> y \<and> y < power_int 2 (binary_exponent y + 1)"
proof (cases "1 \<le> y")
  case True
  define k where "k = \<lfloor>y\<rfloor>"
  from True have k: "0 < k" by (simp add: k_def)
  from bitlen_bounds [OF k] have b: "2 ^ nat (bitlen k - 1) \<le> k" "k + 1 \<le> 2 ^ nat (bitlen k)"
    by simp_all
  from k have b1: "1 \<le> bitlen k"
    using bitlen_eq_zero_iff [of k] bitlen_nonneg [of k] by linarith
  from b(1) have "(2::real) ^ nat (bitlen k - 1) \<le> of_int k" by simp
  moreover have "of_int k \<le> y" by (simp add: k_def)
  ultimately have lo: "(2::real) ^ nat (bitlen k - 1) \<le> y" by linarith
  from b(2) have "of_int (k + 1) \<le> (2::real) ^ nat (bitlen k)" by (simp only: of_int_le_numeral_power_cancel_iff)
  moreover have "y < of_int (k + 1)" by (simp add: k_def)
  ultimately have hi: "y < (2::real) ^ nat (bitlen k)" by linarith
  from b1 have n: "nat (bitlen k - 1 + 1) = nat (bitlen k)" "0 \<le> bitlen k - 1" by simp_all
  from True lo hi n show ?thesis
    by (simp add: binary_exponent_def k_def [symmetric] power_int_def)
next
  case False
  define c where "c = \<lceil>1 / y\<rceil> - 1"
  from False assms have z: "1 < 1 / y" by simp
  then have c: "0 < c" by (simp add: c_def less_ceiling_iff)
  from bitlen_bounds [OF c] have b: "2 ^ nat (bitlen c - 1) \<le> c" "c + 1 \<le> 2 ^ nat (bitlen c)"
    by simp_all
  from c have b1: "1 \<le> bitlen c"
    using bitlen_eq_zero_iff [of c] bitlen_nonneg [of c] by linarith
  have "of_int c < 1 / y" using ceiling_correct [of "1 / y"] by (simp add: c_def)
  moreover from b(1) have "(2::real) ^ nat (bitlen c - 1) \<le> of_int c" by simp
  ultimately have "(2::real) ^ nat (bitlen c - 1) < 1 / y" by linarith
  with assms have hi: "y < 1 / 2 ^ nat (bitlen c - 1)"
    by (simp add: field_simps)
  from b(2) have "of_int (c + 1) \<le> (2::real) ^ nat (bitlen c)" by (simp only: of_int_le_numeral_power_cancel_iff)
  moreover have "1 / y \<le> of_int (c + 1)" by (simp add: c_def)
  ultimately have "1 / y \<le> (2::real) ^ nat (bitlen c)" by linarith
  with assms have lo: "1 / 2 ^ nat (bitlen c) \<le> y"
    by (simp add: field_simps)
  have e: "binary_exponent y = - bitlen c"
    using False by (simp add: binary_exponent_def c_def)
  from b1 have "bitlen c = int (Suc (nat (bitlen c - 1)))" by simp
  then obtain n where n: "bitlen c = int (Suc n)" ..
  then have n1: "nat (bitlen c) = Suc n" "nat (bitlen c - 1) = n" by simp_all
  have p1: "power_int (2::real) (- int (Suc n)) = 1 / 2 ^ Suc n"
    by (simp only: power_int_minus power_int_of_nat inverse_eq_divide)
  have "- int (Suc n) + 1 = - int n" by simp
  then have p2: "power_int (2::real) (- int (Suc n) + 1) = 1 / 2 ^ n"
    by (simp only: power_int_minus power_int_of_nat inverse_eq_divide)
  from lo hi have "1 / 2 ^ Suc n \<le> y" "y < 1 / 2 ^ n"
    by (simp_all only: n1)
  then show ?thesis
    by (simp only: e n p1 p2 simp_thms)
qed




text \<open>The literals, and the additions of the example, evaluated.\<close>

lemma bitlen_1: "bitlen 1 = 1"
  by (subst compute_bitlen) simp

lemma bitlen_3: "bitlen 3 = 2"
  by (subst compute_bitlen) (simp add: bitlen_1)

lemma bitlen_4: "bitlen 4 = 3"
  by (subst compute_bitlen, simp, subst compute_bitlen, simp add: bitlen_1)

lemma bitlen_9: "bitlen 9 = 4"
  by (subst compute_bitlen) (simp add: bitlen_4)

lemma float_literals:
  "float_round (1 / 10) = double_0_1"
  "float_round (2 / 10) = double_0_2"
  "float_round (3 / 10) = double_0_3"
  by (simp_all add: float_round_def binary_exponent_def round_half_even_def Let_def
      bitlen_9 bitlen_4 bitlen_3 double_0_1_def double_0_2_def double_0_3_def)


subsection \<open>The invariant of the run result\<close>




lemma merge_category_fp_eq:
  "merge_category_fp r (cat, data) =
     Inr (r\<lparr>categories :=
              AList.update cat
                \<lparr>count = count (dict_get (map_of (categories r) cat) fresh_bucket)
                          + dict_get (data_count data) 0,
                 savings = float_add (savings (dict_get (map_of (categories r) cat) fresh_bucket))
                                     (dict_get (data_savings data) 0),
                 items = items (dict_get (map_of (categories r) cat) fresh_bucket)
                          @ dict_get (data_items data) []\<rparr>
                (categories r),
            total_savings := float_add (total_savings r) (dict_get (data_savings data) 0)\<rparr>)"
  by (cases "map_of (categories r) cat")
     (simp_all add: merge_category_fp_def modify_bucket_def update_conv' Let_def
        bucket_update_all dict_get_def)




text \<open>Where the two additions do not round, the rounded merge is the exact one.\<close>

lemma merge_category_fp_exact:
  assumes "float_add (savings (dict_get (map_of (categories r) cat) fresh_bucket))
             (dict_get (data_savings data) 0) =
           savings (dict_get (map_of (categories r) cat) fresh_bucket)
             + dict_get (data_savings data) 0"
    and "float_add (total_savings r) (dict_get (data_savings data) 0) =
           total_savings r + dict_get (data_savings data) 0"
  shows "merge_category_fp r (cat, data) = merge_category r (cat, data)"
  by (simp only: merge_category_fp_eq merge_category_eq assms)

text \<open>
  Per category, the rounded merge of one provider result has the closed form of the exact
  one, with the single addition of savings rounded.
\<close>

lemma merge_results_fp_total: "\<exists>r'. merge_results_fp r prov = Inr r'"
  by (induction prov arbitrary: r) (auto simp: merge_category_fp_eq)

lemma merge_results_fp_map_of:
  assumes "distinct (map fst prov)" and "merge_results_fp r prov = Inr r'"
  shows "map_of (categories r') k =
           (case map_of prov k of
              None \<Rightarrow> map_of (categories r) k
            | Some data \<Rightarrow>
                Some \<lparr>count = count (dict_get (map_of (categories r) k) fresh_bucket)
                               + dict_get (data_count data) 0,
                      savings = float_add
                                  (savings (dict_get (map_of (categories r) k) fresh_bucket))
                                  (dict_get (data_savings data) 0),
                      items = items (dict_get (map_of (categories r) k) fresh_bucket)
                               @ dict_get (data_items data) []\<rparr>)"
  using assms
proof (induction prov arbitrary: r)
  case Nil
  then show ?case by simp
next
  case (Cons entry rest)
  obtain c d where entry: "entry = (c, d)" by (cases entry)
  from Cons.prems entry obtain r1 where r1: "merge_category_fp r (c, d) = Inr r1"
    and rest: "merge_results_fp r1 rest = Inr r'"
    by (simp add: merge_category_fp_eq)
  from Cons.prems entry have dist: "distinct (map fst rest)" and notin: "c \<notin> fst ` set rest"
    by auto
  from notin have none: "map_of rest c = None"
    by (simp add: map_of_eq_None_iff)
  from r1 have cats: "map_of (categories r1) =
      (map_of (categories r))(c \<mapsto>
         \<lparr>count = count (dict_get (map_of (categories r) c) fresh_bucket)
                   + dict_get (data_count d) 0,
          savings = float_add (savings (dict_get (map_of (categories r) c) fresh_bucket))
                      (dict_get (data_savings d) 0),
          items = items (dict_get (map_of (categories r) c) fresh_bucket)
                   @ dict_get (data_items d) []\<rparr>)"
    by (auto simp: merge_category_fp_eq update_conv')
  show ?case
    using Cons.IH [OF dist rest] none
    by (cases "k = c") (simp_all add: entry cats split: option.splits)
qed















subsection \<open>The basic path in closed form\<close>

lemma make_recommendation_eq:
  "dict_get (data_count data) 0 > 0 \<Longrightarrow>
   make_recommendation cat data = Inr (basic_record cat data)"
  by (cases "data_count data")
     (simp_all add: make_recommendation_def py_truediv_def dict_get_def)

lemma collect_recommendations_eq:
  "collect_recommendations cats recs =
     Inr (recs @ map (\<lambda>(cat, data). basic_record cat data) (filter counted cats))"
  by (induction cats recs rule: collect_recommendations.induct)
     (simp_all add: make_recommendation_eq)

lemma generate_basic_recommendations_eq:
  "generate_basic_recommendations self cats =
     Inr (sort_reverse rec_total_savings
            (map (\<lambda>(cat, data). basic_record cat data) (filter counted cats)))"
  by (simp add: generate_basic_recommendations_def collect_recommendations_eq)

lemma enhance_recommendations_eq:
  "enhance_recommendations self cats =
     Inr (sort_reverse rec_total_savings
            (map (\<lambda>(cat, data). basic_record cat data) (filter counted cats)))"
  by (simp add: enhance_recommendations_def generate_ai_recommendations_def
      generate_basic_recommendations_eq)

lemma sort_reverse_sorted: "sorted_wrt (\<lambda>a b. f a \<ge> f b) (sort_reverse f xs)"
proof -
  have "sorted (map f (sort_key f (rev xs)))" by simp
  then have "sorted_wrt (\<lambda>a b. f a \<le> f b) (sort_key f (rev xs))"
    by (simp add: sorted_map)
  then show ?thesis
    by (simp add: sort_reverse_def sorted_wrt_rev)
qed

lemma sort_reverse_stable:
  "filter (\<lambda>x. f x = k) (sort_reverse f xs) = filter (\<lambda>x. f x = k) xs"
  by (simp add: sort_reverse_def rev_filter [symmetric] sort_key_stable)

lemma set_sort_reverse: "set (sort_reverse f xs) = set xs"
  by (simp add: sort_reverse_def)

lemma length_sort_reverse: "length (sort_reverse f xs) = length xs"
  by (simp add: sort_reverse_def)

subsection \<open>Fallback to the basic path\<close>

text \<open>
  C4. An engine built with enhanced mode requested and no API key in the environment
  (the variable unset or empty) has the mode switched off by the constructor; its
  \<^verbatim>\<open>enhance_recommendations\<close> raises nothing and returns, for every category input, the
  very sequence returned by an engine built with enhanced mode disabled, which is the
  result of the basic path.
\<close>

theorem fallback_determinism:
  assumes "cfg_enabled config = Some True"
    and "env_key = None \<or> env_key = Some []"
    and "dict_get (cfg_enabled config') False = False"
  shows "enabled (fst (engine_init config env_key)) = False
       \<and> enabled (fst (engine_init config' env_key')) = False
       \<and> (\<exists>recs. enhance_recommendations (fst (engine_init config env_key)) cats = Inr recs
             \<and> enhance_recommendations (fst (engine_init config' env_key')) cats = Inr recs
             \<and> generate_basic_recommendations (fst (engine_init config' env_key')) cats
                 = Inr recs)"
  using assms
  by (auto simp: engine_init_def Let_def dict_get_def enhance_recommendations_eq
      generate_basic_recommendations_eq)

theorem fallback_determinism_witness:
  "cfg_enabled config_ai_requested = Some True
   \<and> dict_get (cfg_enabled config_ai_disabled) False = False
   \<and> engine_init config_ai_requested None =
       (\<lparr>model = ''gpt-4'', confidence_threshold = 7 / 10, enabled = False, api_key = None\<rparr>,
        [''Warning: AI features enabled but OPENAI_API_KEY not set''])
   \<and> enhance_recommendations (fst (engine_init config_ai_requested None)) test_categories =
       Inr [\<lparr>category = ''EC2 Instances'', priority = ''Low'', finding_count = 5,
             rec_total_savings = 1000, average_savings_per_item = 200,
             recommendation = ''Review and rightsize or terminate idle instances'',
             risk_level = ''Medium'', effort = ''Medium''\<rparr>,
            \<lparr>category = ''EBS Volumes'', priority = ''Low'', finding_count = 10,
             rec_total_savings = 500, average_savings_per_item = 50,
             recommendation = ''Delete unattached volumes or create snapshots'',
             risk_level = ''Low'', effort = ''Low''\<rparr>]
   \<and> enhance_recommendations (fst (engine_init config_ai_disabled (Some ''sk-test'')))
        test_categories =
       enhance_recommendations (fst (engine_init config_ai_requested None)) test_categories"
  using fallback_determinism [of config_ai_requested None config_ai_disabled
      "Some ''sk-test''" test_categories]
  by (simp add: config_ai_requested_def config_ai_disabled_def engine_init_def Let_def
      dict_get_def test_categories_def enhance_recommendations_eq sort_reverse_def
      calculate_priority_def get_category_recommendation_def remedy_table_def
      assess_risk_def high_risk_def medium_risk_def assess_effort_def low_effort_def)

subsection \<open>Order of the recommendations\<close>

text \<open>
  C5. For every category input the engine returns a sequence sorted by
  \<^verbatim>\<open>total_savings\<close> in descending order, and the sequence is a function of the
  category input alone: whatever the engine's configuration and state, the same input
  gives the same sequence, ties included.
\<close>

theorem recommendations_sorted:
  "\<exists>recs. enhance_recommendations self cats = Inr recs
     \<and> sorted_wrt (\<lambda>a b. rec_total_savings a \<ge> rec_total_savings b) recs
     \<and> enhance_recommendations self' cats = Inr recs"
  by (simp add: enhance_recommendations_eq sort_reverse_sorted)

theorem recommendations_sorted_witness:
  "enhance_recommendations default_engine test_categories =
     enhance_recommendations (fst (engine_init config_ai_requested (Some ''sk-test'')))
       test_categories
   \<and> map_sum id (map (\<lambda>r. (category r, rec_total_savings r)))
       (enhance_recommendations default_engine (rev test_categories)) =
     Inr [(''EC2 Instances'', 1000), (''EBS Volumes'', 500)]"
  using recommendations_sorted [of default_engine test_categories
      "fst (engine_init config_ai_requested (Some ''sk-test''))"]
  by (simp add: test_categories_def enhance_recommendations_eq sort_reverse_def dict_get_def)

text \<open>
  C10. Among the recommendations with one and the same \<^verbatim>\<open>total_savings\<close>, the
  categories appear in the order in which the input mapping iterates over them: the
  descending sort is stable.
\<close>

theorem recommendations_stable:
  "\<exists>recs. enhance_recommendations self cats = Inr recs
     \<and> map category (filter (\<lambda>r. rec_total_savings r = s) recs) =
        map fst (filter (\<lambda>(cat, data). dict_get (data_count data) 0 > 0
                                         \<and> dict_get (data_savings data) 0 = s) cats)"
proof -
  have "map category (filter (\<lambda>r. rec_total_savings r = s)
          (map (\<lambda>(cat, data). basic_record cat data) (filter counted cats))) =
        map fst (filter (\<lambda>(cat, data). dict_get (data_count data) 0 > 0
                                         \<and> dict_get (data_savings data) 0 = s) cats)"
    by (induction cats) auto
  then show ?thesis
    by (simp add: enhance_recommendations_eq sort_reverse_stable)
qed

theorem recommendations_stable_witness:
  "map_sum id (map category) (enhance_recommendations default_engine tie_categories) =
     Inr [''C'', ''A'', ''B'']
   \<and> map_sum id (map category) (enhance_recommendations default_engine (rev tie_categories)) =
     Inr [''C'', ''B'', ''A'']"
  using recommendations_stable [of default_engine tie_categories 500]
  by (simp add: tie_categories_def enhance_recommendations_eq sort_reverse_def dict_get_def)

subsection \<open>Categories without findings\<close>

text \<open>
  C7. For every category input (a dict, so its keys are distinct) the engine returns
  without error, in particular without a division by zero. Every recommendation returned
  comes from a category of the input whose count is positive, carries that count and
  those savings, and its \<^verbatim>\<open>average_savings_per_item\<close> is the savings divided by the
  count, the divisor being non-zero. A category whose count is 0, missing or negative
  has no recommendation, so there is exactly one recommendation per category with a
  positive count.
\<close>

theorem zero_count_exclusion:
  assumes "distinct (map fst cats)"
  shows "\<exists>recs. enhance_recommendations self cats = Inr recs
     \<and> (\<forall>r \<in> set recs. \<exists>data. map_of cats (category r) = Some data
            \<and> dict_get (data_count data) 0 > 0
            \<and> real_of_int (dict_get (data_count data) 1) \<noteq> 0
            \<and> finding_count r = dict_get (data_count data) 0
            \<and> rec_total_savings r = dict_get (data_savings data) 0
            \<and> average_savings_per_item r =
                dict_get (data_savings data) 0 / real_of_int (dict_get (data_count data) 0))
     \<and> (\<forall>cat data. map_of cats cat = Some data \<longrightarrow> dict_get (data_count data) 0 \<le> 0 \<longrightarrow>
            cat \<notin> category ` set recs)
     \<and> length recs = length (filter (\<lambda>(cat, data). dict_get (data_count data) 0 > 0) cats)"
proof -
  let ?recs = "sort_reverse rec_total_savings
            (map (\<lambda>(cat, data). basic_record cat data) (filter counted cats))"
  have src: "\<exists>data. (category r, data) \<in> set cats \<and> dict_get (data_count data) 0 > 0
                \<and> r = basic_record (category r) data" if "r \<in> set ?recs" for r
    using that by (auto simp: set_sort_reverse)
  have pos: "real_of_int (dict_get (data_count data) 1) \<noteq> 0"
    if "dict_get (data_count data) 0 > 0" for data :: category_data
    using that by (cases "data_count data") (simp_all add: dict_get_def)
  have a: "\<exists>data. map_of cats (category r) = Some data
            \<and> dict_get (data_count data) 0 > 0
            \<and> real_of_int (dict_get (data_count data) 1) \<noteq> 0
            \<and> finding_count r = dict_get (data_count data) 0
            \<and> rec_total_savings r = dict_get (data_savings data) 0
            \<and> average_savings_per_item r =
                dict_get (data_savings data) 0 / real_of_int (dict_get (data_count data) 0)"
    if "r \<in> set ?recs" for r
  proof -
    from src [OF that] obtain data where d: "(category r, data) \<in> set cats"
      "dict_get (data_count data) 0 > 0" "r = basic_record (category r) data" by blast
    from d(1) assms have "map_of cats (category r) = Some data" by simp
    moreover from d(3) have "finding_count r = dict_get (data_count data) 0"
      "rec_total_savings r = dict_get (data_savings data) 0"
      "average_savings_per_item r =
                dict_get (data_savings data) 0 / real_of_int (dict_get (data_count data) 0)"
      by (metis recommendation.select_convs(3), metis recommendation.select_convs(4),
          metis recommendation.select_convs(5))
    ultimately show ?thesis using d(2) pos by blast
  qed
  have b: "cat \<notin> category ` set ?recs"
    if "map_of cats cat = Some data" "dict_get (data_count data) 0 \<le> 0" for cat data
  proof
    assume "cat \<in> category ` set ?recs"
    then obtain r where "r \<in> set ?recs" "category r = cat" by auto
    with a [of r] that show False by auto
  qed
  have c: "length ?recs = length (filter (\<lambda>(cat, data). dict_get (data_count data) 0 > 0) cats)"
    by (simp add: length_sort_reverse case_prod_unfold)
  from a b c show ?thesis
    by (simp add: enhance_recommendations_eq)
qed

theorem zero_count_exclusion_witness:
  "distinct (map fst mixed_count_categories)
   \<and> map_sum id (map (\<lambda>r. (category r, finding_count r, rec_total_savings r,
                             average_savings_per_item r)))
       (enhance_recommendations default_engine mixed_count_categories) =
     Inr [(''EC2 Instances'', 5, 1000, 200)]"
  using zero_count_exclusion [of mixed_count_categories default_engine]
  by (simp add: mixed_count_categories_def enhance_recommendations_eq sort_reverse_def
      dict_get_def)

subsection \<open>Unrecognized categories\<close>

text \<open>
  C8. A category name that is not a key of the remedy table (such a name is in none of
  the risk and effort lists either) gets the remedy text "Review and optimize resources",
  the risk level "Very Low" and the effort "Medium", from the three lookups and in every
  recommendation the engine generates for it; the record for a category with a positive
  count is always built.
\<close>

theorem unrecognized_category:
  assumes "cat \<notin> fst ` set remedy_table"
  shows "get_category_recommendation cat = ''Review and optimize resources''
       \<and> assess_risk cat = ''Very Low''
       \<and> assess_effort cat = ''Medium''
       \<and> cat \<notin> set high_risk \<and> cat \<notin> set medium_risk \<and> cat \<notin> set low_effort
       \<and> (\<forall>data. dict_get (data_count data) 0 > 0 \<longrightarrow>
             (\<exists>r. make_recommendation cat data = Inr r))
       \<and> (\<forall>self cats recs r. enhance_recommendations self cats = Inr recs \<longrightarrow> r \<in> set recs \<longrightarrow>
             category r = cat \<longrightarrow>
             recommendation r = ''Review and optimize resources''
             \<and> risk_level r = ''Very Low'' \<and> effort r = ''Medium'')"
proof -
  from assms have "map_of remedy_table cat = None"
    by (simp add: map_of_eq_None_iff)
  then have 1: "get_category_recommendation cat = ''Review and optimize resources''"
    by (simp add: get_category_recommendation_def dict_get_def)
  from assms have 2: "cat \<notin> set high_risk \<and> cat \<notin> set medium_risk"
    by (auto simp: remedy_table_def high_risk_def medium_risk_def)
  from assms have 3: "cat \<notin> set low_effort"
    by (auto simp: remedy_table_def low_effort_def)
  from 2 have 4: "assess_risk cat = ''Very Low''"
    by (simp add: assess_risk_def)
  from 3 have 5: "assess_effort cat = ''Medium''"
    by (simp add: assess_effort_def)
  have 6: "\<exists>r. make_recommendation cat data = Inr r"
    if "dict_get (data_count data) 0 > 0" for data
    using that by (simp add: make_recommendation_eq)
  have "recommendation r = get_category_recommendation (category r)
      \<and> risk_level r = assess_risk (category r) \<and> effort r = assess_effort (category r)"
    if "enhance_recommendations self cats = Inr recs" "r \<in> set recs" for self cats recs r
    using that by (auto simp: enhance_recommendations_eq set_sort_reverse)
  with 1 2 3 4 5 6 show ?thesis by metis
qed

theorem unrecognized_category_witness:
  "''Load Balancers'' \<notin> fst ` set remedy_table
   \<and> get_category_recommendation ''Load Balancers'' = ''Review and optimize resources''
   \<and> assess_risk ''Load Balancers'' = ''Very Low''
   \<and> assess_effort ''Load Balancers'' = ''Medium''
   \<and> enhance_recommendations default_engine
        [(''Load Balancers'',
          \<lparr>data_count = Some 2, data_savings = Some 30, data_items = None\<rparr>)] =
       Inr [\<lparr>category = ''Load Balancers'', priority = ''Low'', finding_count = 2,
             rec_total_savings = 30, average_savings_per_item = 15,
             recommendation = ''Review and optimize resources'',
             risk_level = ''Very Low'', effort = ''Medium''\<rparr>]"
  using unrecognized_category [of "''Load Balancers''"]
  by (simp add: remedy_table_def get_category_recommendation_def assess_risk_def
      high_risk_def medium_risk_def assess_effort_def low_effort_def dict_get_def
      enhance_recommendations_eq sort_reverse_def calculate_priority_def)

subsection \<open>The end-to-end example\<close>

text \<open>
  C9. For the three categories of the specification's end-to-end example the engine
  returns the recommendations in the order EC2 Instances, EBS Volumes, Elastic IPs with
  the priorities High, High, Medium: the Elastic IPs have 12 findings, more than 10, so
  their priority is Medium and not Low.
\<close>

theorem end_to_end_example:
  "map_sum id (map (\<lambda>r. (category r, priority r)))
     (enhance_recommendations self spec_example_categories) =
   Inr [(''EC2 Instances'', ''High''), (''EBS Volumes'', ''High''), (''Elastic IPs'', ''Medium'')]"
  by (simp add: enhance_recommendations_eq spec_example_categories_def sort_reverse_def
      dict_get_def calculate_priority_def)

text \<open>The priorities of the example are not High, High, Low.\<close>

theorem end_to_end_example_counterexample:
  "map_sum id (map priority) (enhance_recommendations default_engine spec_example_categories)
     \<noteq> Inr [''High'', ''High'', ''Low'']"
  by (simp add: enhance_recommendations_eq spec_example_categories_def sort_reverse_def
      dict_get_def calculate_priority_def)

end
